theory Spec2Isabelle
  imports Main "HOL-Library.AList"
begin

section \<open>The SmartRent plugin for Indigo: a shallow embedding of plugin.py\<close>

text \<open>
  The plugin bridges the Indigo home-automation host and the SmartRent client library.
  Both are imported by plugin.py and are not part of it. Their objects are modelled by
  the data the plugin reads from them and writes to them:
  \<^item> a SmartRent device is its identifier, its class (thermostat, door lock, any other)
    and the values its getters return;
  \<^item> an Indigo device is its type id, its plugin properties and its observable states;
  \<^item> the plugin object is the device directory of the API session, the calls made on
    its logger, the coroutines handed to \<open>run\<close> and the update callbacks it installed.
  Every \<open>raise\<close> of the source, and every exception of a Python built-in the source
  calls, is a value \<open>Inl e\<close> of the result.
\<close>

subsection \<open>Python values and exceptions\<close>

datatype exc = ValueError | TypeError | KeyError | AttributeError

text \<open>
  The values the SmartRent getters return and the plugin properties hold. The attributes
  of the client library are dynamically typed (a getter returns \<open>None\<close> before the
  first update arrived), so a getter's value is a \<open>pyval\<close>. Numbers are integers: the
  SmartRent API reports and accepts whole degrees and percentages.
\<close>

datatype pyval = PNone | PBool bool | PInt int | PStr string

text \<open>Truth value testing, as \<open>if x:\<close> does it.\<close>

fun truthy :: "pyval \<Rightarrow> bool" where
  "truthy PNone = False"
| "truthy (PBool b) = b"
| "truthy (PInt n) = (n \<noteq> 0)"
| "truthy (PStr s) = (s \<noteq> [])"

text \<open>
  The built-in \<open>int(x)\<close>. On a string: surrounding whitespace is stripped, one sign is
  allowed, then decimal digits, with single underscores between digits; anything else
  raises ValueError. Strings are ASCII here, and the whitespace of an ASCII string is
  the space and the characters 9 to 13. \<open>int(None)\<close> raises TypeError.
\<close>

definition isspace :: "char \<Rightarrow> bool" where
  "isspace c = ((of_char c :: nat) \<in> {9, 10, 11, 12, 13, 32})"

definition isdigit :: "char \<Rightarrow> bool" where
  "isdigit c = (48 \<le> (of_char c :: nat) \<and> (of_char c :: nat) \<le> 57)"

definition strip :: "string \<Rightarrow> string" where
  "strip s = rev (dropWhile isspace (rev (dropWhile isspace s)))"

fun int_digits :: "bool \<Rightarrow> nat \<Rightarrow> string \<Rightarrow> nat option" where
  "int_digits prev acc [] = (if prev then Some acc else None)"
| "int_digits prev acc (c # cs) =
     (if isdigit c then int_digits True (10 * acc + (of_char c - 48)) cs
      else if c = CHR ''_'' \<and> prev then int_digits False acc cs
      else None)"

definition int_of_str :: "string \<Rightarrow> exc + int" where
  "int_of_str s =
     (case strip s of
        [] \<Rightarrow> Inl ValueError
      | c # cs \<Rightarrow>
          if c = CHR ''-'' then
            (case int_digits False 0 cs of None \<Rightarrow> Inl ValueError | Some n \<Rightarrow> Inr (- int n))
          else if c = CHR ''+'' then
            (case int_digits False 0 cs of None \<Rightarrow> Inl ValueError | Some n \<Rightarrow> Inr (int n))
          else
            (case int_digits False 0 (c # cs) of None \<Rightarrow> Inl ValueError | Some n \<Rightarrow> Inr (int n)))"

fun py_int :: "pyval \<Rightarrow> exc + int" where
  "py_int PNone = Inl TypeError"
| "py_int (PBool b) = Inr (if b then 1 else 0)"
| "py_int (PInt n) = Inr n"
| "py_int (PStr s) = int_of_str s"

text \<open>\<open>more_itertools.first\<close> without a default: ValueError on an empty iterable.\<close>

definition first :: "'a list \<Rightarrow> exc + 'a" where
  "first xs = (case xs of [] \<Rightarrow> Inl ValueError | x # _ \<Rightarrow> Inr x)"

subsection \<open>The host's enumerations\<close>

text \<open>
  The enumerations of the \<open>indigo\<close> module, with the members plugin.py names. The
  members of \<open>kHvacMode\<close> and \<open>kFanMode\<close> are those of the host; of the other
  enumerations, the members the plugin does not name are one constructor.
\<close>

datatype kFanMode = AlwaysOn | Auto

datatype kHvacMode = Cool | Heat | HeatCool | Off | ProgramHeat | ProgramCool | ProgramHeatCool

datatype kStateImageSel = Locked | Unlocked | OtherStateImageSel

datatype kDeviceAction = TurnOn | TurnOff | OtherDeviceAction

datatype kUniversalAction = RequestStatus | OtherUniversalAction

datatype kThermostatAction =
    SetHvacMode | SetFanMode | SetCoolSetpoint | SetHeatSetpoint
  | DecreaseCoolSetpoint | IncreaseCoolSetpoint | DecreaseHeatSetpoint | IncreaseHeatSetpoint
  | OtherThermostatAction

text \<open>A mode of an action: a member of one of the two mode enumerations.\<close>

datatype indigo_mode = HvacMode kHvacMode | FanMode kFanMode

text \<open>A value of a device state: a plain Python value or a mode.\<close>

datatype indigo_value = Plain pyval | Mode indigo_mode

subsection \<open>The four mode tables\<close>

definition SMARTRENT_INDIGO_HVAC_FAN_MODES :: "pyval \<rightharpoonup> indigo_value" where
  "SMARTRENT_INDIGO_HVAC_FAN_MODES =
     [PStr ''on'' \<mapsto> Mode (FanMode AlwaysOn),
      PStr ''auto'' \<mapsto> Mode (FanMode Auto)]"

definition INDIGO_SMARTRENT_HVAC_FAN_MODES :: "indigo_mode \<rightharpoonup> string" where
  "INDIGO_SMARTRENT_HVAC_FAN_MODES =
     [FanMode AlwaysOn \<mapsto> ''on'',
      FanMode Auto \<mapsto> ''auto'']"

definition SMARTRENT_INDIGO_HVAC_MODES :: "pyval \<rightharpoonup> indigo_value" where
  "SMARTRENT_INDIGO_HVAC_MODES =
     [PStr ''cool'' \<mapsto> Mode (HvacMode Cool),
      PStr ''heat'' \<mapsto> Mode (HvacMode Heat),
      PStr ''auto'' \<mapsto> Mode (HvacMode HeatCool),
      PStr ''off'' \<mapsto> Mode (HvacMode Off)]"

definition INDIGO_SMARTRENT_HVAC_MODES :: "indigo_mode \<rightharpoonup> string" where
  "INDIGO_SMARTRENT_HVAC_MODES =
     [HvacMode Cool \<mapsto> ''cool'',
      HvacMode Heat \<mapsto> ''heat'',
      HvacMode HeatCool \<mapsto> ''auto'',
      HvacMode Off \<mapsto> ''off'']"

subsection \<open>SmartRent devices\<close>

record thermostat =
  get_current_humidity :: pyval
  get_operating_state :: pyval
  get_fan_mode :: pyval
  get_mode :: pyval
  get_cooling_setpoint :: pyval
  get_heating_setpoint :: pyval
  get_current_temp :: pyval

record door_lock =
  get_battery_level :: pyval
  get_locked :: pyval

text \<open>
  The class of a SmartRent device, as \<open>isinstance\<close> tells it: \<open>Thermostat\<close>,
  \<open>DoorLock\<close>, or any other class of the library (leak sensor, switch, motion sensor).
\<close>

datatype smartrent_class =
    SmartRentThermostat thermostat
  | SmartRentDoorLock door_lock
  | SmartRentOther

fun isinstance_Thermostat :: "smartrent_class \<Rightarrow> bool" where
  "isinstance_Thermostat (SmartRentThermostat t) = True"
| "isinstance_Thermostat c = False"

fun isinstance_DoorLock :: "smartrent_class \<Rightarrow> bool" where
  "isinstance_DoorLock (SmartRentDoorLock l) = True"
| "isinstance_DoorLock c = False"

record smartrent_device =
  device_id :: int
  get_online :: pyval
  cls :: smartrent_class

text \<open>The coroutines of the client library the plugin hands to \<open>run\<close>.\<close>

datatype coroutine =
    async_set_locked bool
  | async_fetch_state
  | async_set_mode string
  | async_set_fan_mode string
  | async_set_cooling_setpoint int
  | async_set_heating_setpoint int
  | start_updater

subsection \<open>Indigo devices\<close>

text \<open>
  A state of a device holds a value and, when the write gave one, a display value.
  \<open>coolSetpoint\<close> and \<open>heatSetpoint\<close> are the host's attributes of the same names.
\<close>

record device =
  dev_id :: int
  name :: string
  deviceTypeId :: string
  pluginProps :: "string \<rightharpoonup> pyval"
  states :: "string \<rightharpoonup> indigo_value \<times> string option"
  stateImage :: "kStateImageSel option"
  coolSetpoint :: int
  heatSetpoint :: int

text \<open>\<open>device.pluginProps.get(key, default)\<close>.\<close>

definition pluginProps_get :: "device \<Rightarrow> string \<Rightarrow> pyval \<Rightarrow> pyval" where
  "pluginProps_get device key dflt = (case pluginProps device key of None \<Rightarrow> dflt | Some v \<Rightarrow> v)"

definition updateStateOnServer ::
  "device \<Rightarrow> string \<Rightarrow> indigo_value \<Rightarrow> string option \<Rightarrow> device" where
  "updateStateOnServer device key v uiValue =
     device\<lparr>states := (states device)(key \<mapsto> (v, uiValue))\<rparr>"

definition updateStateImageOnServer :: "device \<Rightarrow> kStateImageSel \<Rightarrow> device" where
  "updateStateImageOnServer device sel = device\<lparr>stateImage := Some sel\<rparr>"

fun updateStatesOnServer :: "device \<Rightarrow> (string \<times> indigo_value) list \<Rightarrow> device" where
  "updateStatesOnServer device [] = device"
| "updateStatesOnServer device ((key, v) # kvs) =
     updateStatesOnServer (updateStateOnServer device key v None) kvs"

text \<open>\<open>dict.update\<close> on an insertion-ordered dictionary.\<close>

fun dict_update :: "('k \<times> 'v) list \<Rightarrow> ('k \<times> 'v) list \<Rightarrow> ('k \<times> 'v) list" where
  "dict_update d [] = d"
| "dict_update d ((k, v) # kvs) = dict_update (AList.update k v d) kvs"

subsection \<open>The plugin object\<close>

datatype log_level = Debug | Info | Warning | Error

text \<open>The messages of the plugin's f-strings, by their format and arguments.\<close>

datatype log_msg =
    Starting string
  | NoDeviceLinked string
  | ReceivedDeviceUpdate smartrent_device
  | NotAThermostat string
  | UnsupportedHvacMode indigo_mode
  | UnsupportedFanMode indigo_mode

text \<open>
  \<open>api\<close> is \<open>None\<close> when \<open>startup\<close> did not log in (the attribute is then not
  set); otherwise it holds the device directory \<open>get_device_list\<close> returns.
  \<open>submitted\<close> lists the coroutines given to \<open>run\<close>, with the SmartRent device
  they are methods of; \<open>update_callbacks\<close> lists the update handlers installed, as
  the pair of the SmartRent device and the Indigo device the handler syncs.
\<close>

record plugin =
  api :: "smartrent_device list option"
  logger :: "(log_level \<times> log_msg) list"
  submitted :: "(int \<times> coroutine) list"
  update_callbacks :: "(int \<times> int) list"

definition log :: "plugin \<Rightarrow> log_level \<Rightarrow> log_msg \<Rightarrow> plugin" where
  "log self lvl msg = self\<lparr>logger := logger self @ [(lvl, msg)]\<rparr>"

definition run :: "plugin \<Rightarrow> smartrent_device \<Rightarrow> coroutine \<Rightarrow> plugin" where
  "run self smartrent_device coro =
     self\<lparr>submitted := submitted self @ [(device_id smartrent_device, coro)]\<rparr>"

definition set_update_callback :: "plugin \<Rightarrow> smartrent_device \<Rightarrow> device \<Rightarrow> plugin" where
  "set_update_callback self smartrent_device device =
     self\<lparr>update_callbacks := update_callbacks self @ [(device_id smartrent_device, dev_id device)]\<rparr>"

subsection \<open>Binding resolution and state synchronisation\<close>

definition get_smartrent_device_for_device :: "plugin \<Rightarrow> device \<Rightarrow> exc + smartrent_device" where
  "get_smartrent_device_for_device self device =
     (case py_int (pluginProps_get device ''smartrent-device'' (PInt 0)) of
        Inl e \<Rightarrow> Inl e
      | Inr smartrent_device_id \<Rightarrow>
          (case api self of
             None \<Rightarrow> Inl AttributeError
           | Some smartrent_devices \<Rightarrow>
               first (filter (\<lambda>d. device_id d = smartrent_device_id) smartrent_devices)))"

text \<open>
  The result of a method: the plugin and the device as the call left them, and the
  value returned or the exception raised.
\<close>

type_synonym 'a outcome = "plugin \<times> device \<times> (exc + 'a)"

definition update_device_from_smartrent ::
  "plugin \<Rightarrow> device \<Rightarrow> smartrent_device option \<Rightarrow> unit outcome" where
  "update_device_from_smartrent self device smartrent_device_arg =
     (case (case smartrent_device_arg of
              Some d \<Rightarrow> Inr d
            | None \<Rightarrow> get_smartrent_device_for_device self device) of
        Inl e \<Rightarrow> (self, device, Inl e)
      | Inr smartrent_device \<Rightarrow>
          (let self1 = log self Debug (ReceivedDeviceUpdate smartrent_device);
               state_updates = [(''online'', Plain (get_online smartrent_device))]
           in
             if deviceTypeId device = ''thermostat'' then
               (case cls smartrent_device of
                  SmartRentThermostat t \<Rightarrow>
                    (case SMARTRENT_INDIGO_HVAC_FAN_MODES (get_fan_mode t) of
                       None \<Rightarrow> (self1, device, Inl KeyError)
                     | Some fan_mode \<Rightarrow>
                         (case SMARTRENT_INDIGO_HVAC_MODES (get_mode t) of
                            None \<Rightarrow> (self1, device, Inl KeyError)
                          | Some hvac_mode \<Rightarrow>
                              (self1,
                               updateStatesOnServer device
                                 (dict_update state_updates
                                    [(''humidityInput1'', Plain (get_current_humidity t)),
                                     (''hvacCoolerIsOn'', Plain (PBool (get_operating_state t = PStr ''cooling''))),
                                     (''hvacFanMode'', fan_mode),
                                     (''hvacHeaterIsOn'', Plain (PBool (get_operating_state t = PStr ''heating''))),
                                     (''hvacOperationMode'', hvac_mode),
                                     (''setpointCool'', Plain (get_cooling_setpoint t)),
                                     (''setpointHeat'', Plain (get_heating_setpoint t)),
                                     (''temperatureInput1'', Plain (get_current_temp t))]),
                               Inr ())))
                | _ \<Rightarrow> (self1, device, Inl TypeError))
             else if deviceTypeId device = ''lock'' then
               (case cls smartrent_device of
                  SmartRentDoorLock l \<Rightarrow>
                    (let state_updates1 =
                           dict_update state_updates
                             [(''batteryLevel'', Plain (get_battery_level l)),
                              (''onOffState'', Plain (get_locked l))];
                         device1 =
                           (if truthy (get_locked l) then
                              updateStateOnServer (updateStateImageOnServer device Locked)
                                ''lockStatus'' (Plain (PStr ''locked'')) (Some ''Locked'')
                            else
                              updateStateOnServer (updateStateImageOnServer device Unlocked)
                                ''lockStatus'' (Plain (PStr ''unlocked'')) (Some ''Unlocked''))
                     in (self1, updateStatesOnServer device1 state_updates1, Inr ()))
                | _ \<Rightarrow> (self1, device, Inl TypeError))
             else (self1, updateStatesOnServer device state_updates, Inr ())))"

text \<open>
  The spec's words for the sync: it builds a state-update set, by the category of the
  local device and the snapshot of the remote one, and applies it. The set is the
  visual indicator to select, if any, and the states to write, in the order written.
\<close>

type_synonym state_update_set =
  "kStateImageSel option \<times> (string \<times> indigo_value \<times> string option) list"

definition build_state_update_set :: "string \<Rightarrow> smartrent_device \<Rightarrow> exc + state_update_set" where
  "build_state_update_set type_id sd =
     (if type_id = ''thermostat'' then
        (case cls sd of
           SmartRentThermostat t \<Rightarrow>
             (case SMARTRENT_INDIGO_HVAC_FAN_MODES (get_fan_mode t) of
                None \<Rightarrow> Inl KeyError
              | Some fan_mode \<Rightarrow>
                  (case SMARTRENT_INDIGO_HVAC_MODES (get_mode t) of
                     None \<Rightarrow> Inl KeyError
                   | Some hvac_mode \<Rightarrow>
                       Inr (None,
                         [(''online'', Plain (get_online sd), None),
                          (''humidityInput1'', Plain (get_current_humidity t), None),
                          (''hvacCoolerIsOn'', Plain (PBool (get_operating_state t = PStr ''cooling'')), None),
                          (''hvacFanMode'', fan_mode, None),
                          (''hvacHeaterIsOn'', Plain (PBool (get_operating_state t = PStr ''heating'')), None),
                          (''hvacOperationMode'', hvac_mode, None),
                          (''setpointCool'', Plain (get_cooling_setpoint t), None),
                          (''setpointHeat'', Plain (get_heating_setpoint t), None),
                          (''temperatureInput1'', Plain (get_current_temp t), None)])))
         | _ \<Rightarrow> Inl TypeError)
      else if type_id = ''lock'' then
        (case cls sd of
           SmartRentDoorLock l \<Rightarrow>
             Inr (Some (if truthy (get_locked l) then Locked else Unlocked),
               [(''lockStatus'',
                 Plain (PStr (if truthy (get_locked l) then ''locked'' else ''unlocked'')),
                 Some (if truthy (get_locked l) then ''Locked'' else ''Unlocked'')),
                (''online'', Plain (get_online sd), None),
                (''batteryLevel'', Plain (get_battery_level l), None),
                (''onOffState'', Plain (get_locked l), None)])
         | _ \<Rightarrow> Inl TypeError)
      else Inr (None, [(''online'', Plain (get_online sd), None)]))"

definition apply_state_update_set :: "device \<Rightarrow> state_update_set \<Rightarrow> device" where
  "apply_state_update_set device w =
     device\<lparr>stateImage := (case fst w of None \<Rightarrow> stateImage device | Some sel \<Rightarrow> Some sel),
            states := fold (\<lambda>(key, e) m. m(key \<mapsto> e)) (snd w) (states device)\<rparr>"

subsection \<open>Device lifecycle\<close>

text \<open>
  \<open>deviceStartComm\<close> returns \<open>False\<close> when the binding does not resolve and
  falls off its end otherwise: the value returned is \<open>Some False\<close> or \<open>None\<close>.
  Its \<open>except\<close> clause names ValueError only.
\<close>

definition deviceStartComm :: "plugin \<Rightarrow> device \<Rightarrow> bool option outcome" where
  "deviceStartComm self device =
     (let self1 = log self Debug (Starting (name device)) in
      case get_smartrent_device_for_device self1 device of
        Inl ValueError \<Rightarrow> (log self1 Error (NoDeviceLinked (name device)), device, Inr (Some False))
      | Inl e \<Rightarrow> (self1, device, Inl e)
      | Inr smartrent_device \<Rightarrow>
          (case update_device_from_smartrent self1 device (Some smartrent_device) of
             (self2, device2, Inl e) \<Rightarrow> (self2, device2, Inl e)
           | (self2, device2, Inr _) \<Rightarrow>
               (run (set_update_callback self2 smartrent_device device2) smartrent_device start_updater,
                device2, Inr None)))"

subsection \<open>Device actions\<close>

text \<open>
  The action objects of the host, by the attributes the handlers read. The universal
  action's attribute is \<open>deviceAction\<close> too, of the enumeration \<open>kUniversalAction\<close>.
  The value of a setpoint action is a number, an integer here as the setpoints are.
\<close>

record device_action =
  deviceAction :: kDeviceAction

record universal_action =
  universalAction :: kUniversalAction

record thermostat_action =
  thermostatAction :: kThermostatAction
  actionMode :: indigo_mode
  actionValue :: int

definition actionControlDevice :: "plugin \<Rightarrow> device_action \<Rightarrow> device \<Rightarrow> unit outcome" where
  "actionControlDevice self action device =
     (case get_smartrent_device_for_device self device of
        Inl e \<Rightarrow> (self, device, Inl e)
      | Inr smartrent_device \<Rightarrow>
          if deviceTypeId device = ''lock'' then
            (case cls smartrent_device of
               SmartRentDoorLock l \<Rightarrow>
                 if deviceAction action = TurnOn then
                   (run self smartrent_device (async_set_locked True), device, Inr ())
                 else if deviceAction action = TurnOff then
                   (run self smartrent_device (async_set_locked False), device, Inr ())
                 else (self, device, Inr ())
             | _ \<Rightarrow> (log self Error (NotAThermostat (name device)), device, Inr ()))
          else (self, device, Inr ()))"

definition actionControlUniversal :: "plugin \<Rightarrow> universal_action \<Rightarrow> device \<Rightarrow> unit outcome" where
  "actionControlUniversal self action device =
     (case get_smartrent_device_for_device self device of
        Inl e \<Rightarrow> (self, device, Inl e)
      | Inr smartrent_device \<Rightarrow>
          if universalAction action = RequestStatus then
            (run self smartrent_device async_fetch_state, device, Inr ())
          else (self, device, Inr ()))"

text \<open>
  \<open>if mode := TABLE.get(action.actionMode)\<close> takes the first branch when the table has
  the key and the string found is not empty.
\<close>

definition actionControlThermostat :: "plugin \<Rightarrow> thermostat_action \<Rightarrow> device \<Rightarrow> unit outcome" where
  "actionControlThermostat self action device =
     (case get_smartrent_device_for_device self device of
        Inl e \<Rightarrow> (self, device, Inl e)
      | Inr smartrent_device \<Rightarrow>
          (case cls smartrent_device of
             SmartRentThermostat t \<Rightarrow>
               if thermostatAction action = SetHvacMode then
                 (case INDIGO_SMARTRENT_HVAC_MODES (actionMode action) of
                    Some mode \<Rightarrow>
                      if mode \<noteq> [] then (run self smartrent_device (async_set_mode mode), device, Inr ())
                      else (log self Warning (UnsupportedHvacMode (actionMode action)), device, Inr ())
                  | None \<Rightarrow> (log self Warning (UnsupportedHvacMode (actionMode action)), device, Inr ()))
               else if thermostatAction action = SetFanMode then
                 (case INDIGO_SMARTRENT_HVAC_FAN_MODES (actionMode action) of
                    Some mode \<Rightarrow>
                      if mode \<noteq> [] then (run self smartrent_device (async_set_fan_mode mode), device, Inr ())
                      else (log self Warning (UnsupportedFanMode (actionMode action)), device, Inr ())
                  | None \<Rightarrow> (log self Warning (UnsupportedFanMode (actionMode action)), device, Inr ()))
               else if thermostatAction action = SetCoolSetpoint then
                 (run self smartrent_device (async_set_cooling_setpoint (actionValue action)), device, Inr ())
               else if thermostatAction action = SetHeatSetpoint then
                 (run self smartrent_device (async_set_heating_setpoint (actionValue action)), device, Inr ())
               else if thermostatAction action = DecreaseCoolSetpoint then
                 (run self smartrent_device
                    (async_set_cooling_setpoint (coolSetpoint device - actionValue action)), device, Inr ())
               else if thermostatAction action = IncreaseCoolSetpoint then
                 (run self smartrent_device
                    (async_set_cooling_setpoint (coolSetpoint device + actionValue action)), device, Inr ())
               else if thermostatAction action = DecreaseHeatSetpoint then
                 (run self smartrent_device
                    (async_set_heating_setpoint (heatSetpoint device - actionValue action)), device, Inr ())
               else if thermostatAction action = IncreaseHeatSetpoint then
                 (run self smartrent_device
                    (async_set_heating_setpoint (heatSetpoint device + actionValue action)), device, Inr ())
               else (self, device, Inr ())
           | _ \<Rightarrow> (log self Error (NotAThermostat (name device)), device, Inr ())))"

subsection \<open>One-time codes\<close>

text \<open>
  Modelled from the spec: the class \<open>TOTP\<close> of the pyotp library, which plugin.py
  imports and which is not part of the repository. The spec's credential generator is
  a deterministic function of the secret, the current time and a fixed time-step of 30
  seconds, and its codes are strings of 6 digits. The keyed hash of the time-step counter
  is a parameter \<open>H\<close>: \<open>H secret\<close> is \<open>None\<close> when the secret does not decode (the
  library then raises a subclass of ValueError), and the hash function of that key
  otherwise. The current time \<open>now\<close> is in seconds.
\<close>

type_synonym keyed_hash = "string \<Rightarrow> (nat \<Rightarrow> nat) option"

datatype TOTP = TOTP (secret: string)

definition digit_char :: "nat \<Rightarrow> char" where
  "digit_char d = ''0123456789'' ! (d mod 10)"

definition six_digits :: "nat \<Rightarrow> string" where
  "six_digits n =
     (let m = n mod 1000000 in
      map digit_char
        [m div 100000, m div 10000, m div 1000, m div 100, m div 10, m])"

definition timecode :: "nat \<Rightarrow> nat" where
  "timecode t = t div 30"

definition TOTP_now :: "keyed_hash \<Rightarrow> TOTP \<Rightarrow> nat \<Rightarrow> exc + string" where
  "TOTP_now H totp now =
     (case H (secret totp) of
        None \<Rightarrow> Inl ValueError
      | Some h \<Rightarrow> Inr (six_digits (h (timecode now))))"

text \<open>The class \<open>OTP\<close> of plugin.py: \<open>__init__\<close>, \<open>__str__\<close> and \<open>__repr__\<close>.\<close>

datatype OTP = OTP (totp: TOTP)

definition OTP_init :: "string \<Rightarrow> OTP" where
  "OTP_init tfa_secret = OTP (TOTP tfa_secret)"

definition OTP_str :: "keyed_hash \<Rightarrow> nat \<Rightarrow> OTP \<Rightarrow> exc + string" where
  "OTP_str H now self = TOTP_now H (totp self) now"

definition OTP_repr :: "keyed_hash \<Rightarrow> nat \<Rightarrow> OTP \<Rightarrow> exc + string" where
  "OTP_repr H now self = OTP_str H now self"

text \<open>
  \<open>generate_2fa_code\<close>: the preview of the code in the configuration dialog. Without
  the key \<open>tfa-secret\<close> the secret is \<open>None\<close>, which the library rejects.
\<close>

definition generate_2fa_code ::
  "keyed_hash \<Rightarrow> nat \<Rightarrow> (string \<rightharpoonup> string) \<Rightarrow> exc + (string \<rightharpoonup> string)" where
  "generate_2fa_code H now valuesDict =
     (case valuesDict ''tfa-secret'' of
        None \<Rightarrow> Inl TypeError
      | Some s \<Rightarrow>
          (case TOTP_now H (TOTP s) now of
             Inl e \<Rightarrow> Inl e
           | Inr code \<Rightarrow> Inr (valuesDict(''tfa-code'' \<mapsto> code))))"

subsection \<open>The JSON encoder of the session\<close>

text \<open>
  A request payload: the values the JSON encoder serialises natively, and objects it
  does not know, for which it calls the method \<open>default\<close> of the encoder class and
  serialises what that returns. An object is an \<open>OTP\<close> or anything else. Dictionary keys
  are strings. The serialisation is the JSON value, not its text.
\<close>

datatype pyobject = OTPObject OTP | OtherObject

datatype payload =
    PyNone
  | PyBool bool
  | PyInt int
  | PyStr string
  | PyList "payload list"
  | PyDict "(string \<times> payload) list"
  | PyObject pyobject

datatype json =
    JNull
  | JBool bool
  | JNumber int
  | JString string
  | JArray "json list"
  | JObject "(string \<times> json) list"

definition JSONEncoder_default :: "pyobject \<Rightarrow> exc + string" where
  "JSONEncoder_default o' = Inl TypeError"

definition OTPEncoder_default :: "keyed_hash \<Rightarrow> nat \<Rightarrow> pyobject \<Rightarrow> exc + string" where
  "OTPEncoder_default H now o' =
     (case o' of
        OTPObject otp \<Rightarrow> OTP_str H now otp
      | _ \<Rightarrow> JSONEncoder_default o')"

fun dumps :: "(pyobject \<Rightarrow> exc + string) \<Rightarrow> payload \<Rightarrow> exc + json"
  and dumps_list :: "(pyobject \<Rightarrow> exc + string) \<Rightarrow> payload list \<Rightarrow> exc + json list"
  and dumps_items :: "(pyobject \<Rightarrow> exc + string) \<Rightarrow> (string \<times> payload) list \<Rightarrow> exc + (string \<times> json) list"
where
  "dumps dflt PyNone = Inr JNull"
| "dumps dflt (PyBool b) = Inr (JBool b)"
| "dumps dflt (PyInt n) = Inr (JNumber n)"
| "dumps dflt (PyStr s) = Inr (JString s)"
| "dumps dflt (PyList xs) =
     (case dumps_list dflt xs of Inl e \<Rightarrow> Inl e | Inr js \<Rightarrow> Inr (JArray js))"
| "dumps dflt (PyDict kvs) =
     (case dumps_items dflt kvs of Inl e \<Rightarrow> Inl e | Inr js \<Rightarrow> Inr (JObject js))"
| "dumps dflt (PyObject o') =
     (case dflt o' of Inl e \<Rightarrow> Inl e | Inr s \<Rightarrow> Inr (JString s))"
| "dumps_list dflt [] = Inr []"
| "dumps_list dflt (x # xs) =
     (case dumps dflt x of
        Inl e \<Rightarrow> Inl e
      | Inr j \<Rightarrow> (case dumps_list dflt xs of Inl e \<Rightarrow> Inl e | Inr js \<Rightarrow> Inr (j # js)))"
| "dumps_items dflt [] = Inr []"
| "dumps_items dflt ((k, x) # kvs) =
     (case dumps dflt x of
        Inl e \<Rightarrow> Inl e
      | Inr j \<Rightarrow> (case dumps_items dflt kvs of Inl e \<Rightarrow> Inl e | Inr js \<Rightarrow> Inr ((k, j) # js)))"

text \<open>
  The serialiser \<open>startup\<close> gives the session: \<open>partial(dumps, cls=OTPEncoder)\<close>,
  called at the time \<open>now\<close>.
\<close>

definition json_serialize :: "keyed_hash \<Rightarrow> nat \<Rightarrow> payload \<Rightarrow> exc + json" where
  "json_serialize H now obj = dumps (OTPEncoder_default H now) obj"

text \<open>
  The spec's words for the encoder: every credential object in the payload is replaced
  by the current code, and the payload is then serialised as usual.
\<close>

fun replace_credentials :: "keyed_hash \<Rightarrow> nat \<Rightarrow> payload \<Rightarrow> payload" where
  "replace_credentials H now (PyList xs) = PyList (map (replace_credentials H now) xs)"
| "replace_credentials H now (PyDict kvs) =
     PyDict (map (\<lambda>(k, x). (k, replace_credentials H now x)) kvs)"
| "replace_credentials H now (PyObject (OTPObject otp)) =
     (case TOTP_now H (totp otp) now of
        Inr code \<Rightarrow> PyStr code
      | Inl e \<Rightarrow> PyObject (OTPObject otp))"
| "replace_credentials H now x = x"

text \<open>The credential objects of a payload.\<close>

fun credentials :: "payload \<Rightarrow> OTP list" where
  "credentials (PyList xs) = concat (map credentials xs)"
| "credentials (PyDict kvs) = concat (map (\<lambda>(k, x). credentials x) kvs)"
| "credentials (PyObject (OTPObject otp)) = [otp]"
| "credentials x = []"

subsection \<open>Example inputs\<close>

text \<open>
  A SmartRent directory of a thermostat (the readings of the spec's scenario), a door
  lock and a leak sensor; Indigo devices of a given type bound to a given identifier;
  and a toy keyed hash that rejects the empty secret.
\<close>

definition ex_thermostat :: thermostat where
  "ex_thermostat =
     \<lparr>get_current_humidity = PInt 40, get_operating_state = PStr ''heating'',
      get_fan_mode = PStr ''auto'', get_mode = PStr ''heat'',
      get_cooling_setpoint = PInt 72, get_heating_setpoint = PInt 68,
      get_current_temp = PInt 66\<rparr>"

definition ex_remote_thermostat :: smartrent_device where
  "ex_remote_thermostat =
     \<lparr>device_id = 7, get_online = PBool True, cls = SmartRentThermostat ex_thermostat\<rparr>"

definition ex_door_lock :: "bool \<Rightarrow> door_lock" where
  "ex_door_lock b = \<lparr>get_battery_level = PInt 90, get_locked = PBool b\<rparr>"

definition ex_remote_lock :: "bool \<Rightarrow> smartrent_device" where
  "ex_remote_lock b =
     \<lparr>device_id = 8, get_online = PBool True, cls = SmartRentDoorLock (ex_door_lock b)\<rparr>"

definition ex_remote_sensor :: smartrent_device where
  "ex_remote_sensor = \<lparr>device_id = 9, get_online = PBool False, cls = SmartRentOther\<rparr>"

definition ex_plugin :: plugin where
  "ex_plugin =
     \<lparr>api = Some [ex_remote_thermostat, ex_remote_lock True, ex_remote_sensor],
      logger = [], submitted = [], update_callbacks = []\<rparr>"

definition ex_device :: "string \<Rightarrow> pyval \<Rightarrow> device" where
  "ex_device type_id binding =
     \<lparr>dev_id = 1, name = ''Hall'', deviceTypeId = type_id,
      pluginProps = [''smartrent-device'' \<mapsto> binding],
      states = Map.empty, stateImage = None, coolSetpoint = 74, heatSetpoint = 66\<rparr>"

definition ex_hash :: keyed_hash where
  "ex_hash s = (if s = [] then None else Some (\<lambda>c. 7919 * c + length s))"

definition ex_payload :: payload where
  "ex_payload =
     PyDict [(''email'', PyStr ''a@b.c''),
             (''tfa'', PyList [PyObject (OTPObject (OTP_init ''JBSWY3DPEHPK3PXP'')), PyInt 1])]"

section \<open>Properties\<close>

subsection \<open>Auxiliary facts\<close>

lemmas mode_tables =
  SMARTRENT_INDIGO_HVAC_FAN_MODES_def SMARTRENT_INDIGO_HVAC_MODES_def
  INDIGO_SMARTRENT_HVAC_FAN_MODES_def INDIGO_SMARTRENT_HVAC_MODES_def

lemmas ex_inputs =
  ex_thermostat_def ex_remote_thermostat_def ex_door_lock_def ex_remote_lock_def
  ex_remote_sensor_def ex_plugin_def ex_device_def

lemmas int_of_str_eval =
  int_of_str_def strip_def isspace_def isdigit_def pluginProps_get_def

text \<open>The binding lookup reads the directory and the plugin properties only.\<close>

lemma lookup_log:
  "get_smartrent_device_for_device (log self lvl msg) device =
   get_smartrent_device_for_device self device"
  by (simp add: get_smartrent_device_for_device_def log_def split: sum.splits)

lemma lookup_props:
  "pluginProps device' = pluginProps device \<Longrightarrow>
   get_smartrent_device_for_device self device' = get_smartrent_device_for_device self device"
  by (simp add: get_smartrent_device_for_device_def pluginProps_get_def)

lemma lookup_unresolved:
  assumes "api self = Some devs"
    and "py_int (pluginProps_get device ''smartrent-device'' (PInt 0)) = Inr n"
    and "n \<notin> set (map device_id devs)"
  shows "get_smartrent_device_for_device self device = Inl ValueError"
proof -
  have "filter (\<lambda>d. device_id d = n) devs = []"
    using assms(3) by (auto simp: filter_empty_conv)
  then show ?thesis
    using assms(1,2) by (simp add: get_smartrent_device_for_device_def first_def)
qed

text \<open>A sync splits into the resolution of the remote device and the sync from it.\<close>

lemma sync_None:
  "update_device_from_smartrent self device None =
     (case get_smartrent_device_for_device self device of
        Inl e \<Rightarrow> (self, device, Inl e)
      | Inr sd \<Rightarrow> update_device_from_smartrent self device (Some sd))"
  by (simp add: update_device_from_smartrent_def split: sum.splits)

lemma sync_mismatch:
  assumes "(deviceTypeId device = ''thermostat'' \<and> \<not> isinstance_Thermostat (cls sd)) \<or>
           (deviceTypeId device = ''lock'' \<and> \<not> isinstance_DoorLock (cls sd))"
  shows "update_device_from_smartrent self device (Some sd) =
           (log self Debug (ReceivedDeviceUpdate sd), device, Inl TypeError)"
  using assms by (cases "cls sd") (auto simp add: update_device_from_smartrent_def)

text \<open>The sync from a given remote device builds the state-update set and applies it.\<close>

lemma sync_Some:
  "update_device_from_smartrent self device (Some sd) =
     (log self Debug (ReceivedDeviceUpdate sd),
      (case build_state_update_set (deviceTypeId device) sd of
         Inl e \<Rightarrow> device
       | Inr w \<Rightarrow> apply_state_update_set device w),
      (case build_state_update_set (deviceTypeId device) sd of
         Inl e \<Rightarrow> Inl e
       | Inr w \<Rightarrow> Inr ()))"
proof -
  consider (thermostat) "deviceTypeId device = ''thermostat''"
    | (lock) "deviceTypeId device = ''lock''"
    | (other) "deviceTypeId device \<noteq> ''thermostat''" "deviceTypeId device \<noteq> ''lock''"
    by blast
  then show ?thesis
  proof cases
    case thermostat
    then have "build_state_update_set (deviceTypeId device) sd = Inl e \<Longrightarrow>
        update_device_from_smartrent self device (Some sd) =
          (log self Debug (ReceivedDeviceUpdate sd), device, Inl e)" for e
      by (cases "cls sd")
        (simp_all add: update_device_from_smartrent_def build_state_update_set_def Let_def
          split: option.splits)
    moreover from thermostat have "build_state_update_set (deviceTypeId device) sd = Inr w \<Longrightarrow>
        update_device_from_smartrent self device (Some sd) =
          (log self Debug (ReceivedDeviceUpdate sd), apply_state_update_set device w, Inr ())" for w
      by (cases "cls sd")
        (auto simp add: update_device_from_smartrent_def build_state_update_set_def Let_def
          updateStateOnServer_def apply_state_update_set_def split: option.splits)
    ultimately show ?thesis
      by (cases "build_state_update_set (deviceTypeId device) sd") simp_all
  next
    case lock
    then have "build_state_update_set (deviceTypeId device) sd = Inl e \<Longrightarrow>
        update_device_from_smartrent self device (Some sd) =
          (log self Debug (ReceivedDeviceUpdate sd), device, Inl e)" for e
      by (cases "cls sd")
        (simp_all add: update_device_from_smartrent_def build_state_update_set_def Let_def)
    moreover from lock have "build_state_update_set (deviceTypeId device) sd = Inr w \<Longrightarrow>
        update_device_from_smartrent self device (Some sd) =
          (log self Debug (ReceivedDeviceUpdate sd), apply_state_update_set device w, Inr ())" for w
      by (cases "cls sd")
        (auto simp add: update_device_from_smartrent_def build_state_update_set_def Let_def
          updateStateOnServer_def updateStateImageOnServer_def apply_state_update_set_def)
    ultimately show ?thesis
      by (cases "build_state_update_set (deviceTypeId device) sd") simp_all
  next
    case other
    then have "build_state_update_set (deviceTypeId device) sd =
        Inr (None, [(''online'', Plain (get_online sd), None)])"
      by (simp add: build_state_update_set_def)
    moreover from other have "update_device_from_smartrent self device (Some sd) =
        (log self Debug (ReceivedDeviceUpdate sd),
         apply_state_update_set device (None, [(''online'', Plain (get_online sd), None)]), Inr ())"
      by (simp add: update_device_from_smartrent_def updateStateOnServer_def
          apply_state_update_set_def)
    ultimately show ?thesis by simp
  qed
qed

lemma fold_upd_char:
  "fold (\<lambda>(key, e) m. m(key \<mapsto> e)) kvs m =
     (\<lambda>k. case map_of (rev kvs) k of Some e \<Rightarrow> Some e | None \<Rightarrow> m k)"
  by (induction kvs arbitrary: m) (auto simp: fun_eq_iff split: option.splits)

lemma fold_upd_again:
  "fold (\<lambda>(key, e) m. m(key \<mapsto> e)) kvs (fold (\<lambda>(key, e) m. m(key \<mapsto> e)) kvs m) =
   fold (\<lambda>(key, e) m. m(key \<mapsto> e)) kvs m"
proof (rule ext)
  fix k
  show "fold (\<lambda>(key, e) m. m(key \<mapsto> e)) kvs (fold (\<lambda>(key, e) m. m(key \<mapsto> e)) kvs m) k =
      fold (\<lambda>(key, e) m. m(key \<mapsto> e)) kvs m k"
    by (cases "map_of (rev kvs) k") (simp_all only: fold_upd_char option.case)
qed

lemma apply_state_update_set_again:
  "apply_state_update_set (apply_state_update_set device w) w = apply_state_update_set device w"
  by (cases "fst w") (simp_all add: apply_state_update_set_def fold_upd_again)

lemma apply_state_update_set_frame:
  "deviceTypeId (apply_state_update_set device w) = deviceTypeId device \<and>
   pluginProps (apply_state_update_set device w) = pluginProps device"
  by (simp add: apply_state_update_set_def)

lemma sync_Some_frame:
  assumes "update_device_from_smartrent self device (Some sd) = (self1, device1, r1)"
  shows "self1 = log self Debug (ReceivedDeviceUpdate sd) \<and>
         pluginProps device1 = pluginProps device"
  using assms
  by (cases "build_state_update_set (deviceTypeId device) sd")
    (auto simp add: sync_Some apply_state_update_set_frame)

lemma sync_Some_again:
  assumes "update_device_from_smartrent self device (Some sd) = (self1, device1, r1)"
  shows "update_device_from_smartrent self' device1 (Some sd) =
           (log self' Debug (ReceivedDeviceUpdate sd), device1, r1)"
  using assms
  by (cases "build_state_update_set (deviceTypeId device) sd")
    (auto simp add: sync_Some apply_state_update_set_frame apply_state_update_set_again)

lemma sync_again:
  assumes "update_device_from_smartrent self device sda = (self1, device1, r1)"
  shows "\<exists>self2. update_device_from_smartrent self1 device1 sda = (self2, device1, r1)"
proof (cases sda)
  case (Some sd)
  then show ?thesis using assms sync_Some_again by blast
next
  case None
  show ?thesis
  proof (cases "get_smartrent_device_for_device self device")
    case (Inl e)
    then have "self1 = self" "device1 = device" "r1 = Inl e"
      using assms None by (simp_all add: sync_None)
    then show ?thesis
      using Inl None by (simp add: sync_None)
  next
    case (Inr sd)
    then have first: "update_device_from_smartrent self device (Some sd) = (self1, device1, r1)"
      using assms None by (simp add: sync_None)
    have "get_smartrent_device_for_device self1 device1 = Inr sd"
      using sync_Some_frame [OF first] Inr lookup_props [of device1 device]
      by (simp add: lookup_log)
    then have "update_device_from_smartrent self1 device1 sda =
        update_device_from_smartrent self1 device1 (Some sd)"
      using None by (simp add: sync_None)
    then show ?thesis
      using sync_Some_again [OF first] by simp
  qed
qed

text \<open>Codes are six digits, and only a million of them exist.\<close>

lemma six_digits_mod: "six_digits (n mod 1000000) = six_digits n"
  by (simp add: six_digits_def)

lemma six_digits_length: "length (six_digits n) = 6"
  by (simp add: six_digits_def Let_def)

lemma isdigit_digit_char: "isdigit (digit_char d)"
proof -
  have "k = 0 \<or> k = 1 \<or> k = 2 \<or> k = 3 \<or> k = 4 \<or> k = 5 \<or> k = 6 \<or> k = 7 \<or> k = 8 \<or> k = 9"
    if "k < 10" for k :: nat
    using that by arith
  then have "d mod 10 \<in> {0, 1, 2, 3, 4, 5, 6, 7, 8, 9}" by simp
  then show ?thesis
    by (auto simp: digit_char_def isdigit_def)
qed

lemma six_digits_isdigit: "list_all isdigit (six_digits n)"
  by (simp add: six_digits_def Let_def isdigit_digit_char)

lemma code_collision:
  fixes h :: "nat \<Rightarrow> nat"
  shows "\<exists>t1 t2. timecode t1 + 1 < timecode t2 \<and>
           six_digits (h (timecode t1)) = six_digits (h (timecode t2))"
proof -
  define f where "f k = h (2 * k) mod 1000000" for k
  have "f ` {0..1000000} \<subseteq> {0..<1000000}"
    by (auto simp: f_def)
  then have "card (f ` {0..1000000}) \<le> card {0..<1000000::nat}"
    by (intro card_mono) auto
  then have "card (f ` {0..1000000}) < card {0..1000000::nat}"
    by simp
  then have "\<not> inj_on f {0..1000000}"
    using pigeonhole by blast
  then obtain x y where xy: "x \<noteq> y" "f x = f y"
    by (auto simp: inj_on_def)
  have main: "\<exists>t1 t2. timecode t1 + 1 < timecode t2 \<and>
           six_digits (h (timecode t1)) = six_digits (h (timecode t2))"
    if "a < b" "f a = f b" for a b
  proof -
    have "timecode (60 * a) = 2 * a" "timecode (60 * b) = 2 * b"
      by (simp_all add: timecode_def)
    moreover have "six_digits (h (2 * a)) = six_digits (h (2 * b))"
      using that(2) six_digits_mod [of "h (2 * a)"] six_digits_mod [of "h (2 * b)"]
      by (simp add: f_def)
    moreover have "2 * a + 1 < 2 * b" using that(1) by simp
    ultimately show ?thesis by metis
  qed
  show ?thesis
  proof (cases "x < y")
    case True
    then show ?thesis using main xy(2) by blast
  next
    case False
    then have "y < x" using xy(1) by simp
    then show ?thesis using main [of y x] xy(2) by simp
  qed
qed

text \<open>The encoder with the hook of \<open>OTPEncoder\<close>, against the plain encoder.\<close>

lemma dumps_list_replace:
  assumes "\<And>x. x \<in> set xs \<Longrightarrow> dumps (OTPEncoder_default H now) x =
      dumps JSONEncoder_default (replace_credentials H now x)"
  shows "dumps_list (OTPEncoder_default H now) xs =
      dumps_list JSONEncoder_default (map (replace_credentials H now) xs)"
  using assms
proof (induction xs)
  case Nil
  show ?case by simp
next
  case (Cons a xs)
  have hd: "dumps (OTPEncoder_default H now) a = dumps JSONEncoder_default (replace_credentials H now a)"
    using Cons.prems by simp
  have tl: "dumps_list (OTPEncoder_default H now) xs =
      dumps_list JSONEncoder_default (map (replace_credentials H now) xs)"
    using Cons.IH Cons.prems by simp
  show ?case by (simp add: hd tl split: sum.splits)
qed

lemma dumps_items_replace:
  assumes "\<And>k x. (k, x) \<in> set kvs \<Longrightarrow> dumps (OTPEncoder_default H now) x =
      dumps JSONEncoder_default (replace_credentials H now x)"
  shows "dumps_items (OTPEncoder_default H now) kvs =
      dumps_items JSONEncoder_default (map (\<lambda>(k, x). (k, replace_credentials H now x)) kvs)"
  using assms
proof (induction kvs)
  case Nil
  show ?case by simp
next
  case (Cons kv kvs)
  obtain k x where kv: "kv = (k, x)" by (cases kv)
  have hd: "dumps (OTPEncoder_default H now) x = dumps JSONEncoder_default (replace_credentials H now x)"
    using Cons.prems [of k x] kv by simp
  have tl: "dumps_items (OTPEncoder_default H now) kvs =
      dumps_items JSONEncoder_default (map (\<lambda>(k, x). (k, replace_credentials H now x)) kvs)"
  proof (rule Cons.IH)
    fix k' x'
    assume "(k', x') \<in> set kvs"
    then show "dumps (OTPEncoder_default H now) x' =
        dumps JSONEncoder_default (replace_credentials H now x')"
      using Cons.prems [of k' x'] by simp
  qed
  show ?case by (simp add: kv hd tl split: sum.splits)
qed

lemma dumps_replace:
  assumes "list_all (\<lambda>otp. H (secret (totp otp)) \<noteq> None) (credentials obj)"
  shows "dumps (OTPEncoder_default H now) obj =
      dumps JSONEncoder_default (replace_credentials H now obj)"
  using assms
proof (induction obj)
  case (PyList xs)
  then show ?case by (simp add: dumps_list_replace list_all_iff)
next
  case (PyDict kvs)
  have "dumps (OTPEncoder_default H now) x = dumps JSONEncoder_default (replace_credentials H now x)"
    if "(k, x) \<in> set kvs" for k x
    using PyDict.IH [of "(k, x)" x] PyDict.prems that by (fastforce simp: list_all_iff)
  then show ?case by (simp add: dumps_items_replace)
next
  case (PyObject o')
  then show ?case
    by (cases o') (auto simp: OTPEncoder_default_def JSONEncoder_default_def OTP_str_def TOTP_now_def)
qed simp_all

lemma OTPEncoder_default_step:
  "timecode t1 = timecode t2 \<Longrightarrow> OTPEncoder_default H t1 = OTPEncoder_default H t2"
  by (auto simp: fun_eq_iff OTPEncoder_default_def OTP_str_def TOTP_now_def
      split: pyobject.splits option.splits)

text \<open>The example directory resolves the bindings 7, 8 and 9, and no other.\<close>

lemma ex_binding_thermostat:
  "get_smartrent_device_for_device ex_plugin (ex_device ty (PStr ''7'')) = Inr ex_remote_thermostat"
  by (simp add: get_smartrent_device_for_device_def first_def ex_inputs int_of_str_eval)

lemma ex_binding_lock:
  "get_smartrent_device_for_device ex_plugin (ex_device ty (PStr ''8'')) = Inr (ex_remote_lock True)"
  by (simp add: get_smartrent_device_for_device_def first_def ex_inputs int_of_str_eval)

lemma ex_binding_sensor:
  "get_smartrent_device_for_device ex_plugin (ex_device ty (PInt 9)) = Inr ex_remote_sensor"
  by (simp add: get_smartrent_device_for_device_def first_def ex_inputs int_of_str_eval)

lemma ex_binding_12:
  "py_int (pluginProps_get (ex_device ty (PStr ''12'')) ''smartrent-device'' (PInt 0)) = Inr 12"
  by (simp add: ex_inputs int_of_str_eval)

lemma ex_directory_ids:
  "api ex_plugin = Some [ex_remote_thermostat, ex_remote_lock True, ex_remote_sensor] \<and>
   map device_id [ex_remote_thermostat, ex_remote_lock True, ex_remote_sensor] = [7, 8, 9]"
  by (simp add: ex_inputs)

subsection \<open>State synchronisation\<close>

text \<open>
  C1. A local thermostat synced from a remote thermostat that reports mode "heat", fan
  mode "auto", operating state "heating", cooling setpoint 72, heating setpoint 68,
  temperature 66 and humidity 40: the one call writes the online flag and the eight
  states hvacOperationMode = Heat, hvacFanMode = Auto, hvacHeaterIsOn = true,
  hvacCoolerIsOn = false, setpointCool = 72, setpointHeat = 68, temperatureInput1 = 66,
  humidityInput1 = 40, and nothing else; it logs the update at debug level and returns.
\<close>

theorem thermostat_scenario_sync:
  assumes "deviceTypeId device = ''thermostat''"
    and "cls sd = SmartRentThermostat t"
    and "get_mode t = PStr ''heat''"
    and "get_fan_mode t = PStr ''auto''"
    and "get_operating_state t = PStr ''heating''"
    and "get_cooling_setpoint t = PInt 72"
    and "get_heating_setpoint t = PInt 68"
    and "get_current_temp t = PInt 66"
    and "get_current_humidity t = PInt 40"
  shows "update_device_from_smartrent self device (Some sd) =
    (log self Debug (ReceivedDeviceUpdate sd),
     device\<lparr>states := (states device)
       (''online'' \<mapsto> (Plain (get_online sd), None),
        ''humidityInput1'' \<mapsto> (Plain (PInt 40), None),
        ''hvacCoolerIsOn'' \<mapsto> (Plain (PBool False), None),
        ''hvacFanMode'' \<mapsto> (Mode (FanMode Auto), None),
        ''hvacHeaterIsOn'' \<mapsto> (Plain (PBool True), None),
        ''hvacOperationMode'' \<mapsto> (Mode (HvacMode Heat), None),
        ''setpointCool'' \<mapsto> (Plain (PInt 72), None),
        ''setpointHeat'' \<mapsto> (Plain (PInt 68), None),
        ''temperatureInput1'' \<mapsto> (Plain (PInt 66), None))\<rparr>,
     Inr ())"
  using assms
  by (simp add: update_device_from_smartrent_def mode_tables updateStateOnServer_def)

theorem thermostat_scenario_sync_witness:
  "deviceTypeId (ex_device ''thermostat'' (PStr ''7'')) = ''thermostat'' \<and>
   cls ex_remote_thermostat = SmartRentThermostat ex_thermostat \<and>
   get_mode ex_thermostat = PStr ''heat'' \<and>
   get_fan_mode ex_thermostat = PStr ''auto'' \<and>
   get_operating_state ex_thermostat = PStr ''heating'' \<and>
   get_cooling_setpoint ex_thermostat = PInt 72 \<and>
   get_heating_setpoint ex_thermostat = PInt 68 \<and>
   get_current_temp ex_thermostat = PInt 66 \<and>
   get_current_humidity ex_thermostat = PInt 40 \<and>
   update_device_from_smartrent ex_plugin (ex_device ''thermostat'' (PStr ''7''))
       (Some ex_remote_thermostat) =
    (log ex_plugin Debug (ReceivedDeviceUpdate ex_remote_thermostat),
     (ex_device ''thermostat'' (PStr ''7''))
       \<lparr>states := (states (ex_device ''thermostat'' (PStr ''7'')))
       (''online'' \<mapsto> (Plain (get_online ex_remote_thermostat), None),
        ''humidityInput1'' \<mapsto> (Plain (PInt 40), None),
        ''hvacCoolerIsOn'' \<mapsto> (Plain (PBool False), None),
        ''hvacFanMode'' \<mapsto> (Mode (FanMode Auto), None),
        ''hvacHeaterIsOn'' \<mapsto> (Plain (PBool True), None),
        ''hvacOperationMode'' \<mapsto> (Mode (HvacMode Heat), None),
        ''setpointCool'' \<mapsto> (Plain (PInt 72), None),
        ''setpointHeat'' \<mapsto> (Plain (PInt 68), None),
        ''temperatureInput1'' \<mapsto> (Plain (PInt 66), None))\<rparr>,
     Inr ())"
proof -
  have h1: "deviceTypeId (ex_device ''thermostat'' (PStr ''7'')) = ''thermostat''"
    by (simp add: ex_device_def)
  have h2: "cls ex_remote_thermostat = SmartRentThermostat ex_thermostat"
    by (simp add: ex_remote_thermostat_def)
  have h3: "get_mode ex_thermostat = PStr ''heat''"
    and h4: "get_fan_mode ex_thermostat = PStr ''auto''"
    and h5: "get_operating_state ex_thermostat = PStr ''heating''"
    and h6: "get_cooling_setpoint ex_thermostat = PInt 72"
    and h7: "get_heating_setpoint ex_thermostat = PInt 68"
    and h8: "get_current_temp ex_thermostat = PInt 66"
    and h9: "get_current_humidity ex_thermostat = PInt 40"
    by (simp_all add: ex_thermostat_def)
  from thermostat_scenario_sync [OF h1 h2 h3 h4 h5 h6 h7 h8 h9, of ex_plugin]
  show ?thesis
    using h1 h2 h3 h4 h5 h6 h7 h8 h9 by blast
qed

text \<open>
  C2, as the code has it. When the declared type of the local device (thermostat or
  lock) does not match the class of the remote device, the sync raises TypeError. It has
  then logged the received update at debug level and nothing about the mismatch, and it
  has written no state. The exception leaves \<open>update_device_from_smartrent\<close>, and it
  leaves \<open>deviceStartComm\<close> too when the sync is the one made at device start: the
  \<open>except\<close> clause there names ValueError only, so no callback is installed and no
  updater is started.
\<close>

theorem type_mismatch_raises:
  assumes "(deviceTypeId device = ''thermostat'' \<and> \<not> isinstance_Thermostat (cls sd)) \<or>
           (deviceTypeId device = ''lock'' \<and> \<not> isinstance_DoorLock (cls sd))"
  shows "update_device_from_smartrent self device (Some sd) =
           (log self Debug (ReceivedDeviceUpdate sd), device, Inl TypeError) \<and>
         (get_smartrent_device_for_device self device = Inr sd \<longrightarrow>
            deviceStartComm self device =
              (log (log self Debug (Starting (name device))) Debug (ReceivedDeviceUpdate sd),
               device, Inl TypeError))"
  by (simp add: deviceStartComm_def lookup_log sync_mismatch [OF assms])

theorem type_mismatch_raises_witness:
  "deviceTypeId (ex_device ''thermostat'' (PStr ''8'')) = ''thermostat'' \<and>
   \<not> isinstance_Thermostat (cls (ex_remote_lock True)) \<and>
   get_smartrent_device_for_device ex_plugin (ex_device ''thermostat'' (PStr ''8'')) =
     Inr (ex_remote_lock True) \<and>
   update_device_from_smartrent ex_plugin (ex_device ''thermostat'' (PStr ''8''))
       (Some (ex_remote_lock True)) =
     (log ex_plugin Debug (ReceivedDeviceUpdate (ex_remote_lock True)),
      ex_device ''thermostat'' (PStr ''8''), Inl TypeError) \<and>
   deviceStartComm ex_plugin (ex_device ''thermostat'' (PStr ''8'')) =
     (log (log ex_plugin Debug (Starting (name (ex_device ''thermostat'' (PStr ''8'')))))
        Debug (ReceivedDeviceUpdate (ex_remote_lock True)),
      ex_device ''thermostat'' (PStr ''8''), Inl TypeError)"
proof -
  have h1: "deviceTypeId (ex_device ''thermostat'' (PStr ''8'')) = ''thermostat''"
    by (simp add: ex_device_def)
  have h2: "\<not> isinstance_Thermostat (cls (ex_remote_lock True))"
    by (simp add: ex_remote_lock_def)
  have h: "(deviceTypeId (ex_device ''thermostat'' (PStr ''8'')) = ''thermostat'' \<and>
            \<not> isinstance_Thermostat (cls (ex_remote_lock True))) \<or>
           (deviceTypeId (ex_device ''thermostat'' (PStr ''8'')) = ''lock'' \<and>
            \<not> isinstance_DoorLock (cls (ex_remote_lock True)))"
    using h1 h2 by simp
  from type_mismatch_raises [OF h, of ex_plugin] ex_binding_lock [of "''thermostat''"]
  show ?thesis
    using h1 h2 by blast
qed

text \<open>
  C2, as the claim states it, fails: a local thermostat bound to the remote door lock.
  The sync does not return: TypeError leaves the sync call, and leaves
  \<open>deviceStartComm\<close>.
\<close>

theorem type_mismatch_escapes:
  "snd (snd (update_device_from_smartrent ex_plugin (ex_device ''thermostat'' (PStr ''8''))
      (Some (ex_remote_lock True)))) = Inl TypeError \<and>
   snd (snd (deviceStartComm ex_plugin (ex_device ''thermostat'' (PStr ''8'')))) = Inl TypeError"
proof -
  have "update_device_from_smartrent self (ex_device ''thermostat'' (PStr ''8''))
      (Some (ex_remote_lock True)) =
      (log self Debug (ReceivedDeviceUpdate (ex_remote_lock True)),
       ex_device ''thermostat'' (PStr ''8''), Inl TypeError)" for self
    by (rule sync_mismatch) (simp add: ex_device_def ex_remote_lock_def)
  then show ?thesis
    by (simp add: deviceStartComm_def lookup_log ex_binding_lock)
qed

text \<open>
  C3. A local lock synced from a remote door lock. When the remote reports locked =
  true, the sync selects the locked indicator and writes lockStatus = "locked" (shown as
  "Locked") and onOffState = true; when it reports locked = false, the unlocked
  indicator, lockStatus = "unlocked" (shown as "Unlocked") and onOffState = false. In
  both cases it writes the battery level and the online flag the remote reports, and
  nothing else.
\<close>

theorem lock_sync:
  assumes "deviceTypeId device = ''lock''"
    and "cls sd = SmartRentDoorLock l"
  shows "(get_locked l = PBool True \<longrightarrow>
      update_device_from_smartrent self device (Some sd) =
        (log self Debug (ReceivedDeviceUpdate sd),
         device\<lparr>stateImage := Some Locked,
           states := (states device)
             (''lockStatus'' \<mapsto> (Plain (PStr ''locked''), Some ''Locked''),
              ''online'' \<mapsto> (Plain (get_online sd), None),
              ''batteryLevel'' \<mapsto> (Plain (get_battery_level l), None),
              ''onOffState'' \<mapsto> (Plain (PBool True), None))\<rparr>,
         Inr ())) \<and>
    (get_locked l = PBool False \<longrightarrow>
      update_device_from_smartrent self device (Some sd) =
        (log self Debug (ReceivedDeviceUpdate sd),
         device\<lparr>stateImage := Some Unlocked,
           states := (states device)
             (''lockStatus'' \<mapsto> (Plain (PStr ''unlocked''), Some ''Unlocked''),
              ''online'' \<mapsto> (Plain (get_online sd), None),
              ''batteryLevel'' \<mapsto> (Plain (get_battery_level l), None),
              ''onOffState'' \<mapsto> (Plain (PBool False), None))\<rparr>,
         Inr ()))"
  using assms
  by (simp add: update_device_from_smartrent_def updateStateOnServer_def
      updateStateImageOnServer_def)

theorem lock_sync_witness:
  "deviceTypeId (ex_device ''lock'' (PStr ''8'')) = ''lock'' \<and>
   cls (ex_remote_lock True) = SmartRentDoorLock (ex_door_lock True) \<and>
   get_locked (ex_door_lock True) = PBool True \<and>
   update_device_from_smartrent ex_plugin (ex_device ''lock'' (PStr ''8''))
       (Some (ex_remote_lock True)) =
     (log ex_plugin Debug (ReceivedDeviceUpdate (ex_remote_lock True)),
      (ex_device ''lock'' (PStr ''8''))\<lparr>stateImage := Some Locked,
        states := (states (ex_device ''lock'' (PStr ''8'')))
          (''lockStatus'' \<mapsto> (Plain (PStr ''locked''), Some ''Locked''),
           ''online'' \<mapsto> (Plain (get_online (ex_remote_lock True)), None),
           ''batteryLevel'' \<mapsto> (Plain (get_battery_level (ex_door_lock True)), None),
           ''onOffState'' \<mapsto> (Plain (PBool True), None))\<rparr>,
      Inr ()) \<and>
   cls (ex_remote_lock False) = SmartRentDoorLock (ex_door_lock False) \<and>
   get_locked (ex_door_lock False) = PBool False \<and>
   update_device_from_smartrent ex_plugin (ex_device ''lock'' (PStr ''8''))
       (Some (ex_remote_lock False)) =
     (log ex_plugin Debug (ReceivedDeviceUpdate (ex_remote_lock False)),
      (ex_device ''lock'' (PStr ''8''))\<lparr>stateImage := Some Unlocked,
        states := (states (ex_device ''lock'' (PStr ''8'')))
          (''lockStatus'' \<mapsto> (Plain (PStr ''unlocked''), Some ''Unlocked''),
           ''online'' \<mapsto> (Plain (get_online (ex_remote_lock False)), None),
           ''batteryLevel'' \<mapsto> (Plain (get_battery_level (ex_door_lock False)), None),
           ''onOffState'' \<mapsto> (Plain (PBool False), None))\<rparr>,
      Inr ())"
proof -
  have h1: "deviceTypeId (ex_device ''lock'' (PStr ''8'')) = ''lock''"
    by (simp add: ex_device_def)
  have h2: "cls (ex_remote_lock b) = SmartRentDoorLock (ex_door_lock b)" for b
    by (simp add: ex_remote_lock_def)
  have h3: "get_locked (ex_door_lock b) = PBool b" for b
    by (simp add: ex_door_lock_def)
  from lock_sync [OF h1 h2 [of True], of ex_plugin] lock_sync [OF h1 h2 [of False], of ex_plugin]
  show ?thesis
    using h1 h2 [of True] h2 [of False] h3 [of True] h3 [of False] by blast
qed

text \<open>
  C6. The sync is idempotent. Whatever a first sync leaves (the device written, or the
  exception raised with the device untouched), a second sync with the same argument, on
  the device and the plugin the first one left, leaves the same device and the same
  result. And the sync from a given remote device is the application of a state-update
  set built from the type of the local device and the snapshot of the remote one only.
\<close>

theorem sync_idempotent:
  "(case update_device_from_smartrent self device sda of
      (self1, device1, r1) \<Rightarrow>
        fst (snd (update_device_from_smartrent self1 device1 sda)) = device1 \<and>
        snd (snd (update_device_from_smartrent self1 device1 sda)) = r1) \<and>
   update_device_from_smartrent self device (Some sd) =
     (log self Debug (ReceivedDeviceUpdate sd),
      (case build_state_update_set (deviceTypeId device) sd of
         Inl e \<Rightarrow> device
       | Inr w \<Rightarrow> apply_state_update_set device w),
      (case build_state_update_set (deviceTypeId device) sd of
         Inl e \<Rightarrow> Inl e
       | Inr w \<Rightarrow> Inr ()))"
proof -
  obtain self1 device1 r1
    where first: "update_device_from_smartrent self device sda = (self1, device1, r1)"
    by (cases "update_device_from_smartrent self device sda") auto
  obtain self2
    where "update_device_from_smartrent self1 device1 sda = (self2, device1, r1)"
    using sync_again [OF first] by blast
  with first show ?thesis
    by (simp add: sync_Some)
qed

theorem sync_idempotent_witness:
  "fst (snd (update_device_from_smartrent ex_plugin (ex_device ''thermostat'' (PStr ''7'')) None)) =
     apply_state_update_set (ex_device ''thermostat'' (PStr ''7''))
       (None,
        [(''online'', Plain (PBool True), None),
         (''humidityInput1'', Plain (PInt 40), None),
         (''hvacCoolerIsOn'', Plain (PBool False), None),
         (''hvacFanMode'', Mode (FanMode Auto), None),
         (''hvacHeaterIsOn'', Plain (PBool True), None),
         (''hvacOperationMode'', Mode (HvacMode Heat), None),
         (''setpointCool'', Plain (PInt 72), None),
         (''setpointHeat'', Plain (PInt 68), None),
         (''temperatureInput1'', Plain (PInt 66), None)]) \<and>
   fst (snd (update_device_from_smartrent
       (fst (update_device_from_smartrent ex_plugin (ex_device ''thermostat'' (PStr ''7'')) None))
       (fst (snd (update_device_from_smartrent ex_plugin (ex_device ''thermostat'' (PStr ''7'')) None)))
       None)) =
     fst (snd (update_device_from_smartrent ex_plugin (ex_device ''thermostat'' (PStr ''7'')) None))"
proof -
  have set: "build_state_update_set ''thermostat'' ex_remote_thermostat =
      Inr (None,
        [(''online'', Plain (PBool True), None),
         (''humidityInput1'', Plain (PInt 40), None),
         (''hvacCoolerIsOn'', Plain (PBool False), None),
         (''hvacFanMode'', Mode (FanMode Auto), None),
         (''hvacHeaterIsOn'', Plain (PBool True), None),
         (''hvacOperationMode'', Mode (HvacMode Heat), None),
         (''setpointCool'', Plain (PInt 72), None),
         (''setpointHeat'', Plain (PInt 68), None),
         (''temperatureInput1'', Plain (PInt 66), None)])"
    by (simp add: build_state_update_set_def mode_tables ex_remote_thermostat_def ex_thermostat_def)
  have ty: "deviceTypeId (ex_device ''thermostat'' (PStr ''7'')) = ''thermostat''"
    by (simp add: ex_device_def)
  from sync_idempotent [where self = ex_plugin
      and device = "ex_device ''thermostat'' (PStr ''7'')" and sda = None
      and sd = ex_remote_thermostat]
  show ?thesis
    by (simp add: sync_None ex_binding_thermostat set ty split: prod.splits)
qed

text \<open>
  C7. For a local device whose declared type is neither thermostat nor lock, a sync that
  has its remote device (given, or found by the binding) writes the online flag and
  nothing else: every other state, the indicator and every other attribute of the device
  are as before.
\<close>

theorem other_type_sync_online_only:
  assumes "deviceTypeId device \<noteq> ''thermostat''" and "deviceTypeId device \<noteq> ''lock''"
    and "sda = Some sd \<or> (sda = None \<and> get_smartrent_device_for_device self device = Inr sd)"
  shows "update_device_from_smartrent self device sda =
    (log self Debug (ReceivedDeviceUpdate sd),
     device\<lparr>states := (states device)(''online'' \<mapsto> (Plain (get_online sd), None))\<rparr>,
     Inr ())"
  using assms
  by (auto simp add: update_device_from_smartrent_def updateStateOnServer_def)

theorem other_type_sync_online_only_witness:
  "deviceTypeId (ex_device ''leak_sensor'' (PInt 9)) \<noteq> ''thermostat'' \<and>
   deviceTypeId (ex_device ''leak_sensor'' (PInt 9)) \<noteq> ''lock'' \<and>
   get_smartrent_device_for_device ex_plugin (ex_device ''leak_sensor'' (PInt 9)) =
     Inr ex_remote_sensor \<and>
   update_device_from_smartrent ex_plugin (ex_device ''leak_sensor'' (PInt 9)) None =
    (log ex_plugin Debug (ReceivedDeviceUpdate ex_remote_sensor),
     (ex_device ''leak_sensor'' (PInt 9))
       \<lparr>states := (states (ex_device ''leak_sensor'' (PInt 9)))
          (''online'' \<mapsto> (Plain (get_online ex_remote_sensor), None))\<rparr>,
     Inr ())"
proof -
  have h1: "deviceTypeId (ex_device ''leak_sensor'' (PInt 9)) \<noteq> ''thermostat''"
    and h2: "deviceTypeId (ex_device ''leak_sensor'' (PInt 9)) \<noteq> ''lock''"
    by (simp_all add: ex_device_def)
  have h3: "None = Some ex_remote_sensor \<or>
      (None = None \<and>
       get_smartrent_device_for_device ex_plugin (ex_device ''leak_sensor'' (PInt 9)) =
         Inr ex_remote_sensor)"
    by (simp add: ex_binding_sensor)
  from other_type_sync_online_only [OF h1 h2 h3]
  show ?thesis
    using h1 h2 ex_binding_sensor [of "''leak_sensor''"] by blast
qed

subsection \<open>Device start and actions on an unbound device\<close>

text \<open>
  C4. When the binding identifier of a local device is the identifier of no device in
  the directory, \<open>deviceStartComm\<close> returns False, and the device is as it was: no
  state is written. The call logs the start and the error, and submits nothing.
\<close>

theorem start_unbound_returns_False:
  assumes "api self = Some devs"
    and "py_int (pluginProps_get device ''smartrent-device'' (PInt 0)) = Inr n"
    and "n \<notin> set (map device_id devs)"
  shows "deviceStartComm self device =
    (log (log self Debug (Starting (name device))) Error (NoDeviceLinked (name device)),
     device, Inr (Some False))"
  using lookup_unresolved [OF assms]
  by (simp add: deviceStartComm_def lookup_log)

theorem start_unbound_returns_False_witness:
  "api ex_plugin = Some [ex_remote_thermostat, ex_remote_lock True, ex_remote_sensor] \<and>
   py_int (pluginProps_get (ex_device ''lock'' (PStr ''12'')) ''smartrent-device'' (PInt 0)) = Inr 12 \<and>
   12 \<notin> set (map device_id [ex_remote_thermostat, ex_remote_lock True, ex_remote_sensor]) \<and>
   deviceStartComm ex_plugin (ex_device ''lock'' (PStr ''12'')) =
    (log (log ex_plugin Debug (Starting (name (ex_device ''lock'' (PStr ''12'')))))
       Error (NoDeviceLinked (name (ex_device ''lock'' (PStr ''12'')))),
     ex_device ''lock'' (PStr ''12''), Inr (Some False))"
proof -
  have h1: "api ex_plugin = Some [ex_remote_thermostat, ex_remote_lock True, ex_remote_sensor]"
    using ex_directory_ids by simp
  have h2: "py_int (pluginProps_get (ex_device ''lock'' (PStr ''12'')) ''smartrent-device'' (PInt 0)) = Inr 12"
    by (rule ex_binding_12)
  have h3: "12 \<notin> set (map device_id [ex_remote_thermostat, ex_remote_lock True, ex_remote_sensor])"
    using ex_directory_ids by simp
  from start_unbound_returns_False [OF h1 h2 h3]
  show ?thesis
    using h1 h2 h3 by blast
qed

text \<open>
  C10. When the binding of a local device resolves to no remote device, each of the three
  action handlers lets the ValueError of the lookup through: the handler raises it, and
  the plugin and the device are as before, so nothing was submitted and nothing logged.
  \<open>deviceStartComm\<close> is the one caller that catches it, and returns False.
\<close>

theorem actions_propagate_ValueError:
  assumes "api self = Some devs"
    and "py_int (pluginProps_get device ''smartrent-device'' (PInt 0)) = Inr n"
    and "n \<notin> set (map device_id devs)"
  shows "actionControlDevice self da device = (self, device, Inl ValueError) \<and>
         actionControlUniversal self ua device = (self, device, Inl ValueError) \<and>
         actionControlThermostat self ta device = (self, device, Inl ValueError) \<and>
         snd (snd (deviceStartComm self device)) = Inr (Some False)"
  using lookup_unresolved [OF assms]
  by (simp add: actionControlDevice_def actionControlUniversal_def actionControlThermostat_def
      deviceStartComm_def lookup_log)

theorem actions_propagate_ValueError_witness:
  "api ex_plugin = Some [ex_remote_thermostat, ex_remote_lock True, ex_remote_sensor] \<and>
   py_int (pluginProps_get (ex_device ''thermostat'' (PStr ''12'')) ''smartrent-device'' (PInt 0)) = Inr 12 \<and>
   12 \<notin> set (map device_id [ex_remote_thermostat, ex_remote_lock True, ex_remote_sensor]) \<and>
   actionControlDevice ex_plugin \<lparr>deviceAction = TurnOn\<rparr> (ex_device ''thermostat'' (PStr ''12'')) =
     (ex_plugin, ex_device ''thermostat'' (PStr ''12''), Inl ValueError) \<and>
   actionControlUniversal ex_plugin \<lparr>universalAction = RequestStatus\<rparr>
       (ex_device ''thermostat'' (PStr ''12'')) =
     (ex_plugin, ex_device ''thermostat'' (PStr ''12''), Inl ValueError) \<and>
   actionControlThermostat ex_plugin
       \<lparr>thermostatAction = SetCoolSetpoint, actionMode = HvacMode Cool, actionValue = 70\<rparr>
       (ex_device ''thermostat'' (PStr ''12'')) =
     (ex_plugin, ex_device ''thermostat'' (PStr ''12''), Inl ValueError) \<and>
   snd (snd (deviceStartComm ex_plugin (ex_device ''thermostat'' (PStr ''12'')))) = Inr (Some False)"
proof -
  have h1: "api ex_plugin = Some [ex_remote_thermostat, ex_remote_lock True, ex_remote_sensor]"
    using ex_directory_ids by simp
  have h2: "py_int (pluginProps_get (ex_device ''thermostat'' (PStr ''12'')) ''smartrent-device'' (PInt 0)) = Inr 12"
    by (rule ex_binding_12)
  have h3: "12 \<notin> set (map device_id [ex_remote_thermostat, ex_remote_lock True, ex_remote_sensor])"
    using ex_directory_ids by simp
  from actions_propagate_ValueError [OF h1 h2 h3]
  show ?thesis
    using h1 h2 h3 by blast
qed

subsection \<open>Thermostat actions\<close>

text \<open>
  C5, as the handler has it. A thermostat action SetHvacMode whose mode is not a key of
  \<open>INDIGO_SMARTRENT_HVAC_MODES\<close>, or SetFanMode whose mode is not a key of
  \<open>INDIGO_SMARTRENT_HVAC_FAN_MODES\<close>: the handler submits no remote call and leaves the
  device as it was, whatever the binding is. What it logs depends on the binding, which
  it resolves first: on a device bound to a remote thermostat it appends the warning of
  the unsupported mode to the log and returns; on a device bound to a remote device of
  another class it appends the error that the device is not a thermostat and returns;
  on a device whose binding does not resolve it raises the exception of the lookup and
  logs nothing.
\<close>

theorem unsupported_mode_submits_nothing:
  assumes "(thermostatAction action = SetHvacMode \<and>
            INDIGO_SMARTRENT_HVAC_MODES (actionMode action) = None) \<or>
           (thermostatAction action = SetFanMode \<and>
            INDIGO_SMARTRENT_HVAC_FAN_MODES (actionMode action) = None)"
  shows "actionControlThermostat self action device =
           (case get_smartrent_device_for_device self device of
              Inl e \<Rightarrow> (self, device, Inl e)
            | Inr sd \<Rightarrow>
                if isinstance_Thermostat (cls sd) then
                  (self\<lparr>logger := logger self @
                     [(Warning,
                       if thermostatAction action = SetHvacMode
                       then UnsupportedHvacMode (actionMode action)
                       else UnsupportedFanMode (actionMode action))]\<rparr>,
                   device, Inr ())
                else
                  (self\<lparr>logger := logger self @ [(Error, NotAThermostat (name device))]\<rparr>,
                   device, Inr ())) \<and>
         submitted (fst (actionControlThermostat self action device)) = submitted self \<and>
         fst (snd (actionControlThermostat self action device)) = device"
proof (cases "get_smartrent_device_for_device self device")
  case (Inl e)
  then show ?thesis
    by (simp add: actionControlThermostat_def)
next
  case (Inr sd)
  show ?thesis
  proof (cases "cls sd")
    case (SmartRentThermostat t)
    with Inr assms show ?thesis
      by (auto simp add: actionControlThermostat_def log_def)
  next
    case (SmartRentDoorLock l)
    with Inr show ?thesis
      by (simp add: actionControlThermostat_def log_def)
  next
    case SmartRentOther
    with Inr show ?thesis
      by (simp add: actionControlThermostat_def log_def)
  qed
qed

theorem unsupported_mode_submits_nothing_witness:
  "thermostatAction \<lparr>thermostatAction = SetHvacMode, actionMode = HvacMode ProgramHeat, actionValue = 0\<rparr>
     = SetHvacMode \<and>
   INDIGO_SMARTRENT_HVAC_MODES
     (actionMode \<lparr>thermostatAction = SetHvacMode, actionMode = HvacMode ProgramHeat, actionValue = 0\<rparr>)
     = None \<and>
   actionControlThermostat ex_plugin
       \<lparr>thermostatAction = SetHvacMode, actionMode = HvacMode ProgramHeat, actionValue = 0\<rparr>
       (ex_device ''thermostat'' (PStr ''7'')) =
     (ex_plugin\<lparr>logger := [(Warning, UnsupportedHvacMode (HvacMode ProgramHeat))]\<rparr>,
      ex_device ''thermostat'' (PStr ''7''), Inr ()) \<and>
   submitted (fst (actionControlThermostat ex_plugin
       \<lparr>thermostatAction = SetHvacMode, actionMode = HvacMode ProgramHeat, actionValue = 0\<rparr>
       (ex_device ''thermostat'' (PStr ''7'')))) = [] \<and>
   thermostatAction \<lparr>thermostatAction = SetFanMode, actionMode = HvacMode Off, actionValue = 0\<rparr>
     = SetFanMode \<and>
   INDIGO_SMARTRENT_HVAC_FAN_MODES
     (actionMode \<lparr>thermostatAction = SetFanMode, actionMode = HvacMode Off, actionValue = 0\<rparr>)
     = None \<and>
   actionControlThermostat ex_plugin
       \<lparr>thermostatAction = SetFanMode, actionMode = HvacMode Off, actionValue = 0\<rparr>
       (ex_device ''thermostat'' (PStr ''7'')) =
     (ex_plugin\<lparr>logger := [(Warning, UnsupportedFanMode (HvacMode Off))]\<rparr>,
      ex_device ''thermostat'' (PStr ''7''), Inr ()) \<and>
   submitted (fst (actionControlThermostat ex_plugin
       \<lparr>thermostatAction = SetFanMode, actionMode = HvacMode Off, actionValue = 0\<rparr>
       (ex_device ''thermostat'' (PStr ''7'')))) = []"
proof -
  let ?a = "\<lparr>thermostatAction = SetHvacMode, actionMode = HvacMode ProgramHeat, actionValue = 0\<rparr>"
  let ?b = "\<lparr>thermostatAction = SetFanMode, actionMode = HvacMode Off, actionValue = 0\<rparr>"
  have a1: "thermostatAction ?a = SetHvacMode" by simp
  have a2: "INDIGO_SMARTRENT_HVAC_MODES (actionMode ?a) = None"
    by (simp add: INDIGO_SMARTRENT_HVAC_MODES_def)
  have a: "(thermostatAction ?a = SetHvacMode \<and> INDIGO_SMARTRENT_HVAC_MODES (actionMode ?a) = None) \<or>
           (thermostatAction ?a = SetFanMode \<and> INDIGO_SMARTRENT_HVAC_FAN_MODES (actionMode ?a) = None)"
    using a1 a2 by blast
  have b1: "thermostatAction ?b = SetFanMode" by simp
  have b2: "INDIGO_SMARTRENT_HVAC_FAN_MODES (actionMode ?b) = None"
    by (simp add: INDIGO_SMARTRENT_HVAC_FAN_MODES_def)
  have b: "(thermostatAction ?b = SetHvacMode \<and> INDIGO_SMARTRENT_HVAC_MODES (actionMode ?b) = None) \<or>
           (thermostatAction ?b = SetFanMode \<and> INDIGO_SMARTRENT_HVAC_FAN_MODES (actionMode ?b) = None)"
    using b1 b2 by blast
  have c: "isinstance_Thermostat (cls ex_remote_thermostat)"
    by (simp add: ex_remote_thermostat_def)
  have d: "logger ex_plugin = []" "submitted ex_plugin = []"
    by (simp_all add: ex_plugin_def)
  from unsupported_mode_submits_nothing [OF a, where self = ex_plugin
      and device = "ex_device ''thermostat'' (PStr ''7'')"]
    unsupported_mode_submits_nothing [OF b, where self = ex_plugin
      and device = "ex_device ''thermostat'' (PStr ''7'')"]
  show ?thesis
    using a1 a2 b1 b2 c d by (simp add: ex_binding_thermostat)
qed

text \<open>
  C5, as the claim states it, fails: the unsupported HVAC mode ProgramHeat set on a
  thermostat whose binding 12 resolves to no device, and on one bound to the door lock 8.
  In the first case the handler raises ValueError and the log is as before, empty; in
  the second the one entry logged is an error. Neither logs a warning.
\<close>

theorem unsupported_mode_no_warning:
  "INDIGO_SMARTRENT_HVAC_MODES (HvacMode ProgramHeat) = None \<and>
   logger ex_plugin = [] \<and>
   actionControlThermostat ex_plugin
       \<lparr>thermostatAction = SetHvacMode, actionMode = HvacMode ProgramHeat, actionValue = 0\<rparr>
       (ex_device ''thermostat'' (PStr ''12'')) =
     (ex_plugin, ex_device ''thermostat'' (PStr ''12''), Inl ValueError) \<and>
   actionControlThermostat ex_plugin
       \<lparr>thermostatAction = SetHvacMode, actionMode = HvacMode ProgramHeat, actionValue = 0\<rparr>
       (ex_device ''thermostat'' (PStr ''8'')) =
     (ex_plugin\<lparr>logger := [(Error, NotAThermostat ''Hall'')]\<rparr>,
      ex_device ''thermostat'' (PStr ''8''), Inr ())"
proof -
  have "get_smartrent_device_for_device ex_plugin (ex_device ''thermostat'' (PStr ''12'')) =
      Inl ValueError"
    using ex_directory_ids
    by (intro lookup_unresolved [where n = 12 and
          devs = "[ex_remote_thermostat, ex_remote_lock True, ex_remote_sensor]"])
      (simp_all add: ex_binding_12)
  moreover have "cls (ex_remote_lock True) = SmartRentDoorLock (ex_door_lock True)"
    by (simp add: ex_remote_lock_def)
  moreover have "logger ex_plugin = []"
    by (simp add: ex_plugin_def)
  moreover have "name (ex_device ''thermostat'' (PStr ''8'')) = ''Hall''"
    by (simp add: ex_device_def)
  ultimately show ?thesis
    by (simp add: actionControlThermostat_def log_def ex_binding_lock
        INDIGO_SMARTRENT_HVAC_MODES_def)
qed

subsection \<open>One-time codes and the encoder\<close>

text \<open>
  C9, as the generator has it. Two codes generated in the same time-step are equal,
  from \<open>TOTP.now\<close> and in the preview of \<open>generate_2fa_code\<close> alike: the code is a
  function of the secret and the time-step. A code is a string of six digits.
\<close>

theorem codes_equal_within_step:
  "(timecode t1 = timecode t2 \<longrightarrow>
      TOTP_now H tp t1 = TOTP_now H tp t2 \<and>
      generate_2fa_code H t1 valuesDict = generate_2fa_code H t2 valuesDict) \<and>
   (TOTP_now H tp t = Inr code \<longrightarrow> length code = 6 \<and> list_all isdigit code)"
  by (auto simp: TOTP_now_def generate_2fa_code_def six_digits_length six_digits_isdigit
      split: option.splits)

theorem codes_equal_within_step_witness:
  "timecode 60 = timecode 89 \<and>
   TOTP_now ex_hash (TOTP ''JBSWY3DPEHPK3PXP'') 60 = TOTP_now ex_hash (TOTP ''JBSWY3DPEHPK3PXP'') 89 \<and>
   generate_2fa_code ex_hash 60 [''tfa-secret'' \<mapsto> ''JBSWY3DPEHPK3PXP''] =
     generate_2fa_code ex_hash 89 [''tfa-secret'' \<mapsto> ''JBSWY3DPEHPK3PXP''] \<and>
   TOTP_now ex_hash (TOTP ''JBSWY3DPEHPK3PXP'') 60 = Inr ''015854'' \<and>
   length ''015854'' = 6 \<and> list_all isdigit ''015854''"
proof -
  have h1: "timecode 60 = timecode 89"
    by (simp add: timecode_def)
  have h2: "TOTP_now ex_hash (TOTP ''JBSWY3DPEHPK3PXP'') 60 = Inr ''015854''"
    by (simp add: TOTP_now_def ex_hash_def timecode_def six_digits_def digit_char_def)
  from codes_equal_within_step [where ?t1.0 = 60 and ?t2.0 = 89 and H = ex_hash
      and tp = "TOTP ''JBSWY3DPEHPK3PXP''" and t = 60 and code = "''015854''"
      and valuesDict = "[''tfa-secret'' \<mapsto> ''JBSWY3DPEHPK3PXP'']"]
  show ?thesis
    using h1 h2 by blast
qed

text \<open>
  C9, as the claim states it, fails, and for every keyed hash and every secret it
  accepts: there is no generator of six-digit codes whose codes differ whenever they are
  generated more than one time-step apart. Among the time-steps 0, 2, 4, ... up to
  2000000 two have the same code.
\<close>

theorem codes_collide_across_steps:
  "\<not> (\<exists>H s. H s \<noteq> None \<and>
        (\<forall>t1 t2. timecode t1 + 1 < timecode t2 \<longrightarrow>
           TOTP_now H (TOTP s) t1 \<noteq> TOTP_now H (TOTP s) t2))"
proof
  assume "\<exists>H s. H s \<noteq> None \<and>
        (\<forall>t1 t2. timecode t1 + 1 < timecode t2 \<longrightarrow>
           TOTP_now H (TOTP s) t1 \<noteq> TOTP_now H (TOTP s) t2)"
  then obtain H :: keyed_hash and s h where h: "H s = Some h"
    and all: "\<And>t1 t2. timecode t1 + 1 < timecode t2 \<Longrightarrow>
        TOTP_now H (TOTP s) t1 \<noteq> TOTP_now H (TOTP s) t2"
    by auto
  obtain t1 t2 where "timecode t1 + 1 < timecode t2"
    "six_digits (h (timecode t1)) = six_digits (h (timecode t2))"
    using code_collision [of h] by blast
  then show False
    using all [of t1 t2] h by (simp add: TOTP_now_def)
qed

text \<open>
  C8, as the encoder has it. Serialising a payload with the session's encoder at the
  time \<open>now\<close> gives what the plain encoder gives for the payload in which every
  credential object, at any depth of lists and dictionary values, is replaced by the
  code of its secret at \<open>now\<close>, provided each secret decodes; the object holds the
  secret and no time, so the moment it was built has no part in the code. A credential
  object alone serialises to its code at \<open>now\<close>, or raises what the generator raises.
  Two serialisations in the same time-step are equal.
\<close>

theorem encoder_replaces_credentials:
  "(list_all (\<lambda>otp. H (secret (totp otp)) \<noteq> None) (credentials obj) \<longrightarrow>
      json_serialize H now obj = dumps JSONEncoder_default (replace_credentials H now obj)) \<and>
   json_serialize H now (PyObject (OTPObject (OTP_init s))) =
     (case TOTP_now H (TOTP s) now of Inl e \<Rightarrow> Inl e | Inr code \<Rightarrow> Inr (JString code)) \<and>
   (timecode t1 = timecode t2 \<longrightarrow> json_serialize H t1 obj = json_serialize H t2 obj)"
  using dumps_replace [of H obj now] OTPEncoder_default_step [of t1 t2 H]
  by (auto simp: json_serialize_def OTPEncoder_default_def OTP_str_def OTP_init_def)

theorem encoder_replaces_credentials_witness:
  "list_all (\<lambda>otp. ex_hash (secret (totp otp)) \<noteq> None) (credentials ex_payload) \<and>
   json_serialize ex_hash 60 ex_payload =
     dumps JSONEncoder_default (replace_credentials ex_hash 60 ex_payload) \<and>
   replace_credentials ex_hash 60 ex_payload =
     PyDict [(''email'', PyStr ''a@b.c''), (''tfa'', PyList [PyStr ''015854'', PyInt 1])] \<and>
   timecode 60 = timecode 89 \<and>
   json_serialize ex_hash 60 ex_payload = json_serialize ex_hash 89 ex_payload"
proof -
  have h1: "list_all (\<lambda>otp. ex_hash (secret (totp otp)) \<noteq> None) (credentials ex_payload)"
    by (simp add: ex_payload_def ex_hash_def OTP_init_def)
  have h2: "timecode 60 = timecode 89"
    by (simp add: timecode_def)
  have h3: "replace_credentials ex_hash 60 ex_payload =
      PyDict [(''email'', PyStr ''a@b.c''), (''tfa'', PyList [PyStr ''015854'', PyInt 1])]"
    by (simp add: ex_payload_def OTP_init_def TOTP_now_def ex_hash_def timecode_def
        six_digits_def digit_char_def)
  from encoder_replaces_credentials [where H = ex_hash and obj = ex_payload and now = 60
      and ?t1.0 = 60 and ?t2.0 = 89]
  show ?thesis
    using h1 h2 h3 by blast
qed

text \<open>
  C8, as the claim states it, fails in its last part, and for every keyed hash and every
  secret it accepts: two serialisations of one credential object in different time-steps
  can produce the same code.
\<close>

theorem serialized_codes_collide:
  "\<not> (\<exists>H s. H s \<noteq> None \<and>
        (\<forall>t1 t2. timecode t1 \<noteq> timecode t2 \<longrightarrow>
           json_serialize H t1 (PyObject (OTPObject (OTP_init s))) \<noteq>
           json_serialize H t2 (PyObject (OTPObject (OTP_init s)))))"
proof
  assume "\<exists>H s. H s \<noteq> None \<and>
        (\<forall>t1 t2. timecode t1 \<noteq> timecode t2 \<longrightarrow>
           json_serialize H t1 (PyObject (OTPObject (OTP_init s))) \<noteq>
           json_serialize H t2 (PyObject (OTPObject (OTP_init s))))"
  then obtain H :: keyed_hash and s h where h: "H s = Some h"
    and all: "\<And>t1 t2. timecode t1 \<noteq> timecode t2 \<Longrightarrow>
        json_serialize H t1 (PyObject (OTPObject (OTP_init s))) \<noteq>
        json_serialize H t2 (PyObject (OTPObject (OTP_init s)))"
    by auto
  obtain t1 t2 where "timecode t1 + 1 < timecode t2"
    "six_digits (h (timecode t1)) = six_digits (h (timecode t2))"
    using code_collision [of h] by blast
  then show False
    using all [of t1 t2] h
    by (simp add: json_serialize_def OTPEncoder_default_def OTP_str_def OTP_init_def TOTP_now_def)
qed

end
